theory Spec2Isabelle
  imports Main
begin

section \<open>Values of the host language\<close>

text \<open>
  The pipe of \<^verbatim>\<open>src/pipes/standard-validation.pipe.ts\<close> handles values of type
  \<^verbatim>\<open>unknown\<close> and \<^verbatim>\<open>any\<close>: the value under validation, what a custom exception
  factory returns, and what is thrown. They are modelled by one datatype of run-time
  values. Numbers are integers here (no claim depends on fractions). The framework's
  exception classes are constructors: \<open>JHttpException response status\<close> is
  \<^verbatim>\<open>new HttpException(response, status)\<close>, \<open>JBadRequestException payload\<close> is
  \<^verbatim>\<open>new BadRequestException(payload)\<close> (a subclass of HttpException), and
  \<open>JTypeError\<close> is the error the run time raises when a property of
  \<^verbatim>\<open>undefined\<close> or \<^verbatim>\<open>null\<close> is read or a non-function is called.
\<close>

datatype jsval =
    JUndefined
  | JNull
  | JBoolean bool
  | JNumber int
  | JString string
  | JSymbol string
  | JArray "jsval list"
  | JObject "(string \<times> jsval) list"
  | JHttpException jsval nat
  | JBadRequestException jsval
  | JTypeError

text \<open>A call either returns a value or throws one (a rejected promise, once awaited, throws).\<close>

datatype 'a completion = Returns 'a | Throws jsval

text \<open>\<^verbatim>\<open>exception instanceof HttpException\<close>: true of the class and of its subclasses.\<close>

fun instanceof_HttpException :: "jsval \<Rightarrow> bool" where
  "instanceof_HttpException (JHttpException response status) = True"
| "instanceof_HttpException (JBadRequestException payload) = True"
| "instanceof_HttpException _ = False"

text \<open>Reading a property of an object literal; an absent property reads \<^verbatim>\<open>undefined\<close>.\<close>

fun get_prop :: "jsval \<Rightarrow> string \<Rightarrow> jsval" where
  "get_prop (JObject props) k = (case map_of props k of Some v \<Rightarrow> v | None \<Rightarrow> JUndefined)"
| "get_prop _ k = JUndefined"

text \<open>\<^verbatim>\<open>HttpStatus.BAD_REQUEST\<close> of the framework.\<close>

definition BAD_REQUEST :: nat where
  "BAD_REQUEST = 400"

section \<open>The standard-schema contract\<close>

text \<open>
  Modelled from the spec: the standard-schema interface (issue, path segment, validation
  outcome), whose declaration is in \<^verbatim>\<open>interfaces/standard-schema.interface\<close>. A
  validation outcome is \<^verbatim>\<open>{ value }\<close> or \<^verbatim>\<open>{ issues: [...] }\<close>; an issue has a message
  and an optional path, an ordered sequence of property keys or path-segment descriptors
  \<^verbatim>\<open>{ key: PropertyKey }\<close>. A property key is a string, a number or a symbol.
\<close>

datatype PropertyKey = KString string | KNumber int | KSymbol string

datatype segment = Key PropertyKey | PathSegment PropertyKey

record Issue =
  message :: string
  path :: "segment list option"

text \<open>
  The \<^verbatim>\<open>issues\<close> property of a validation outcome: absent, present and
  \<^verbatim>\<open>undefined\<close>, \<^verbatim>\<open>null\<close>, or an array of issues.
\<close>

datatype issues_field = IssuesAbsent | IssuesUndefined | IssuesNull | Issues "Issue list"

text \<open>An outcome; \<open>val\<close> is its \<^verbatim>\<open>value\<close> property, \<open>None\<close> when absent.\<close>

record Result =
  issues :: issues_field
  val :: "jsval option"

text \<open>
  A value inspected with \<^verbatim>\<open>typeof\<close>: \<^verbatim>\<open>undefined\<close>, \<^verbatim>\<open>null\<close>, a primitive or
  an object with contents \<open>'a\<close>.
\<close>

datatype 'a dynamic = DUndefined | DNull | DBoolean bool | DNumber int | DString string | DObject 'a

fun typeof :: "'a dynamic \<Rightarrow> string" where
  "typeof DUndefined = ''undefined''"
| "typeof DNull = ''object''"
| "typeof (DBoolean b) = ''boolean''"
| "typeof (DNumber n) = ''number''"
| "typeof (DString s) = ''string''"
| "typeof (DObject x) = ''object''"

fun is_null :: "'a dynamic \<Rightarrow> bool" where
  "is_null DNull = True"
| "is_null _ = False"

text \<open>
  The validation entry point \<^verbatim>\<open>schema['~standard'].validate\<close>, with its result awaited.
\<close>

type_synonym validate_fn = "jsval \<Rightarrow> Result completion"

section \<open>Objects, types and the pipe\<close>

text \<open>
  Modelled from the spec: the options record of
  \<^verbatim>\<open>interfaces/validation-options.interface\<close>, which is
  \<^verbatim>\<open>{ errorHttpStatusCode?, exceptionFactory?, validateCustomDecorators?, expectedType? }\<close>,
  and the metadata key \<^verbatim>\<open>SCHEMA_METADATA_KEY\<close> of \<^verbatim>\<open>constants\<close>, under which a
  decorator attaches a schema to a class.

  The first constructor argument is a schema or an options object, told apart at run
  time. An object is therefore modelled by the properties the pipe reads from it: the
  \<^verbatim>\<open>'~standard'\<close> property (\<open>None\<close> when absent; when it is an object it carries
  \<^verbatim>\<open>validate\<close>) and the four options. A declared type is one of the five built-in
  constructors or a class with its static \<^verbatim>\<open>schema\<close> property and the schema that
  \<^verbatim>\<open>Reflect.getMetadata(SCHEMA_METADATA_KEY, type)\<close> finds on it.
\<close>

datatype jsobject =
  JSObject
    (standard: "validate_fn dynamic option")
    (errorHttpStatusCode: "nat option")
    (exceptionFactory: "(Issue list \<Rightarrow> jsval completion) option")
    (validateCustomDecorators: "bool option")
    (expectedType: "jstype option")
and jstype =
    String | Boolean | Number | Array | Object
  | Class (static_schema: "jsobject option") (schema_metadata: "jsobject option")

text \<open>The object literal \<^verbatim>\<open>{}\<close>.\<close>

definition empty_object :: jsobject where
  "empty_object = JSObject None None None None None"

datatype Paramtype = body | query | param | custom

record ArgumentMetadata =
  type :: Paramtype
  metatype :: "jstype option"
  data :: "string option"

record pipe =
  schema :: "jsobject option"
  options :: jsobject

subsection \<open>isSchema\<close>

text \<open>\<^verbatim>\<open>'~standard' in value\<close>, evaluated only once \<open>value\<close> is known to be an object.\<close>

fun standard_in :: "jsobject dynamic \<Rightarrow> bool" where
  "standard_in (DObject obj) = (case standard obj of Some d \<Rightarrow> True | None \<Rightarrow> False)"
| "standard_in _ = False"

text \<open>\<^verbatim>\<open>value['~standard']\<close>; a property that is absent reads \<^verbatim>\<open>undefined\<close>.\<close>

fun get_standard :: "jsobject dynamic \<Rightarrow> validate_fn dynamic" where
  "get_standard (DObject obj) = (case standard obj of Some d \<Rightarrow> d | None \<Rightarrow> DUndefined)"
| "get_standard _ = DUndefined"

definition isSchema :: "jsobject dynamic \<Rightarrow> bool" where
  "isSchema v \<longleftrightarrow>
     typeof v = ''object'' \<and>
     \<not> is_null v \<and>
     standard_in v \<and>
     typeof (get_standard v) = ''object''"

subsection \<open>The constructor\<close>

text \<open>
  \<^verbatim>\<open>schemaOrOptions ?? {}\<close>: \<^verbatim>\<open>undefined\<close> and \<^verbatim>\<open>null\<close> give the empty object.
  A primitive stored as the options has none of the option properties, as \<^verbatim>\<open>{}\<close>.
\<close>

fun or_empty :: "jsobject dynamic \<Rightarrow> jsobject" where
  "or_empty (DObject obj) = obj"
| "or_empty _ = empty_object"

definition StandardValidationPipe :: "jsobject dynamic \<Rightarrow> jsobject option \<Rightarrow> pipe" where
  "StandardValidationPipe schemaOrOptions opts =
     (if isSchema schemaOrOptions
      then \<lparr>schema = Some (or_empty schemaOrOptions),
            options = (case opts of Some ob \<Rightarrow> ob | None \<Rightarrow> empty_object)\<rparr>
      else \<lparr>schema = None,
            options = or_empty schemaOrOptions\<rparr>)"

subsection \<open>Schema resolution\<close>

fun isPrimitive :: "jstype \<Rightarrow> bool" where
  "isPrimitive t = (t \<in> set [String, Boolean, Number, Array, Object])"

text \<open>The built-in constructors carry neither a static schema nor schema metadata.\<close>

fun getSchemaFromType :: "jstype \<Rightarrow> jsobject option" where
  "getSchemaFromType (Class st md) = (case st of Some s \<Rightarrow> Some s | None \<Rightarrow> md)"
| "getSchemaFromType _ = None"

definition getSchema :: "pipe \<Rightarrow> ArgumentMetadata \<Rightarrow> jsobject option" where
  "getSchema this metadata =
     (case schema this of
        Some s \<Rightarrow> Some s
      | None \<Rightarrow>
         if type metadata = custom \<and> validateCustomDecorators (options this) \<noteq> Some True
         then None
         else
           (case (case expectedType (options this) of Some t \<Rightarrow> Some t | None \<Rightarrow> metatype metadata) of
              None \<Rightarrow> None
            | Some t \<Rightarrow> if isPrimitive t then None else getSchemaFromType t))"

subsection \<open>Building the exception\<close>

fun key_val :: "PropertyKey \<Rightarrow> jsval" where
  "key_val (KString s) = JString s"
| "key_val (KNumber n) = JNumber n"
| "key_val (KSymbol s) = JSymbol s"

text \<open>A segment as a value, \<^verbatim>\<open>typeof segment\<close>, \<^verbatim>\<open>'key' in segment\<close> and \<^verbatim>\<open>segment.key\<close>.\<close>

fun segment_val :: "segment \<Rightarrow> jsval" where
  "segment_val (Key k) = key_val k"
| "segment_val (PathSegment k) = JObject [(''key'', key_val k)]"

fun typeof_segment :: "segment \<Rightarrow> string" where
  "typeof_segment (Key (KString s)) = ''string''"
| "typeof_segment (Key (KNumber n)) = ''number''"
| "typeof_segment (Key (KSymbol s)) = ''symbol''"
| "typeof_segment (PathSegment k) = ''object''"

fun key_in :: "segment \<Rightarrow> bool" where
  "key_in (PathSegment k) = True"
| "key_in (Key k) = False"

definition normalizePath :: "segment list option \<Rightarrow> jsval list" where
  "normalizePath p =
     (case p of
        None \<Rightarrow> []
      | Some segs \<Rightarrow>
          map (\<lambda>segment.
                 if typeof_segment segment = ''object'' \<and> key_in segment
                 then get_prop (segment_val segment) ''key''
                 else segment_val segment) segs)"

definition createException :: "pipe \<Rightarrow> Issue list \<Rightarrow> jsval completion" where
  "createException this iss =
     (case exceptionFactory (options this) of
        Some factory \<Rightarrow>
          (case factory iss of
             Throws e \<Rightarrow> Throws e
           | Returns exception \<Rightarrow>
               if instanceof_HttpException exception then Returns exception
               else Returns (JBadRequestException exception))
      | None \<Rightarrow>
          (let statusCode = (case errorHttpStatusCode (options this) of
                               Some c \<Rightarrow> c | None \<Rightarrow> BAD_REQUEST)
           in Returns (JHttpException
                (JObject
                  [(''statusCode'', JNumber (int statusCode)),
                   (''message'', JString ''Validation failed''),
                   (''errors'', JArray (map (\<lambda>issue.
                        JObject [(''path'', JArray (normalizePath (path issue))),
                                 (''message'', JString (message issue))]) iss))])
                statusCode)))"

subsection \<open>transform\<close>

text \<open>\<^verbatim>\<open>'issues' in result && result.issues\<close>: the property exists and its value is truthy.\<close>

fun issues_in :: "Result \<Rightarrow> bool" where
  "issues_in r = (issues r \<noteq> IssuesAbsent)"

fun truthy_issues :: "issues_field \<Rightarrow> bool" where
  "truthy_issues (Issues iss) = True"
| "truthy_issues _ = False"

fun issues_of :: "issues_field \<Rightarrow> Issue list" where
  "issues_of (Issues iss) = iss"
| "issues_of _ = []"

text \<open>\<^verbatim>\<open>result.value\<close>; absent reads \<^verbatim>\<open>undefined\<close>.\<close>

definition result_value :: "Result \<Rightarrow> jsval" where
  "result_value r = (case val r of Some v \<Rightarrow> v | None \<Rightarrow> JUndefined)"

definition transform :: "pipe \<Rightarrow> jsval \<Rightarrow> ArgumentMetadata \<Rightarrow> jsval completion" where
  "transform this v metadata =
     (case getSchema this metadata of
        None \<Rightarrow> Returns v
      | Some s \<Rightarrow>
          (case get_standard (DObject s) of
             DObject validate \<Rightarrow>
               (case validate v of
                  Throws e \<Rightarrow> Throws e
                | Returns result \<Rightarrow>
                    if issues_in result \<and> truthy_issues (issues result)
                    then (case createException this (issues_of (issues result)) of
                            Throws e \<Rightarrow> Throws e
                          | Returns exception \<Rightarrow> Throws exception)
                    else Returns (result_value result))
           | _ \<Rightarrow> Throws JTypeError))"

section \<open>The flattened path of an issue, as the specification words it\<close>

text \<open>
  The specification describes the \<^verbatim>\<open>path\<close> of an error entry as a flattened sequence of
  property-key segments: each segment is the raw key, or the \<^verbatim>\<open>.key\<close> field of a compound
  path-segment descriptor. An issue without a path has the empty sequence.
\<close>

definition flatten_segment :: "segment \<Rightarrow> jsval" where
  "flatten_segment seg = (case seg of Key k \<Rightarrow> key_val k | PathSegment k \<Rightarrow> key_val k)"

definition flattened_path :: "segment list option \<Rightarrow> jsval list" where
  "flattened_path p = (case p of None \<Rightarrow> [] | Some segs \<Rightarrow> map flatten_segment segs)"

section \<open>Example schemas, options and descriptors\<close>

text \<open>
  Two validators, one that accepts every input and echoes it and one that rejects every
  input with three issues (a raw key, a descriptor followed by an index, and no path).
\<close>

definition accept_all :: validate_fn where
  "accept_all v = Returns \<lparr>issues = IssuesUndefined, val = Some v\<rparr>"

definition example_issues :: "Issue list" where
  "example_issues =
     [\<lparr>message = ''Invalid email'', path = Some [Key (KString ''email'')]\<rparr>,
      \<lparr>message = ''Expected number'',
       path = Some [PathSegment (KString ''items''), Key (KNumber 0)]\<rparr>,
      \<lparr>message = ''Invalid input'', path = None\<rparr>]"

definition reject_all :: validate_fn where
  "reject_all v = Returns \<lparr>issues = Issues example_issues, val = None\<rparr>"

definition no_issues_failure :: validate_fn where
  "no_issues_failure v = Returns \<lparr>issues = Issues [], val = None\<rparr>"

definition accepting_schema :: jsobject where
  "accepting_schema = JSObject (Some (DObject accept_all)) None None None None"

definition rejecting_schema :: jsobject where
  "rejecting_schema = JSObject (Some (DObject reject_all)) None None None None"

definition empty_failure_schema :: jsobject where
  "empty_failure_schema = JSObject (Some (DObject no_issues_failure)) None None None None"

text \<open>
  An object whose \<^verbatim>\<open>'~standard'\<close> property is \<^verbatim>\<open>null\<close>.
\<close>

definition null_standard :: jsobject where
  "null_standard = JSObject (Some DNull) None None None None"

text \<open>
  Exception factories: one returns a plain object, one an HttpException instance.
\<close>

definition code_factory :: "Issue list \<Rightarrow> jsval completion" where
  "code_factory iss =
     Returns (JObject [(''code'', JString ''X''), (''count'', JNumber (int (length iss)))])"

definition teapot_factory :: "Issue list \<Rightarrow> jsval completion" where
  "teapot_factory iss = Returns (JHttpException (JString ''teapot'') 418)"

definition code_options :: jsobject where
  "code_options = JSObject None None (Some code_factory) None None"

definition teapot_options :: jsobject where
  "teapot_options = JSObject None None (Some teapot_factory) None None"

definition status_options :: jsobject where
  "status_options = JSObject None (Some 422) None None None"

definition flag_options :: jsobject where
  "flag_options = JSObject None None None (Some True) None"

text \<open>
  Classes: a DTO class with a static schema, a decorated class with schema metadata
  only, a class with both, and a class with neither; and argument descriptors.
\<close>

definition dto_class :: jstype where
  "dto_class = Class (Some rejecting_schema) None"

definition decorated_class :: jstype where
  "decorated_class = Class None (Some accepting_schema)"

definition both_class :: jstype where
  "both_class = Class (Some rejecting_schema) (Some accepting_schema)"

definition plain_class :: jstype where
  "plain_class = Class None None"

definition body_metadata :: ArgumentMetadata where
  "body_metadata = \<lparr>type = body, metatype = None, data = None\<rparr>"

definition custom_metadata :: ArgumentMetadata where
  "custom_metadata = \<lparr>type = custom, metatype = Some dto_class, data = None\<rparr>"

definition plain_metadata :: ArgumentMetadata where
  "plain_metadata = \<lparr>type = body, metatype = Some plain_class, data = None\<rparr>"

definition both_metadata :: ArgumentMetadata where
  "both_metadata = \<lparr>type = body, metatype = Some both_class, data = None\<rparr>"

definition decorated_metadata :: ArgumentMetadata where
  "decorated_metadata = \<lparr>type = query, metatype = Some decorated_class, data = None\<rparr>"

section \<open>Auxiliary facts\<close>

lemma typeof_object_iff: "typeof d = ''object'' \<longleftrightarrow> d = DNull \<or> (\<exists>x. d = DObject x)"
  by (cases d) simp_all

lemma isSchema_object:
  "isSchema (DObject s) \<longleftrightarrow> (\<exists>d. standard s = Some d \<and> typeof d = ''object'')"
  by (simp add: isSchema_def split: option.splits)

lemma schema_unbound: "\<not> isSchema a \<Longrightarrow> schema (StandardValidationPipe a opts) = None"
  by (simp add: StandardValidationPipe_def)

lemma getSchema_bound: "schema this = Some s \<Longrightarrow> getSchema this metadata = Some s"
  by (simp add: getSchema_def)

lemma getSchema_unbound:
  assumes "schema this = None"
  shows "getSchema this md =
           (if type md = custom \<and> validateCustomDecorators (options this) \<noteq> Some True then None
            else (case (case expectedType (options this) of
                          Some t \<Rightarrow> Some t | None \<Rightarrow> metatype md) of
                    None \<Rightarrow> None
                  | Some t \<Rightarrow> if t \<in> {String, Boolean, Number, Array, Object} then None
                              else getSchemaFromType t))"
  using assms by (simp add: getSchema_def split: option.splits)

text \<open>
  The source's \<open>normalizePath\<close> computes the flattened path of the specification.
\<close>

lemma normalizePath_flattened: "normalizePath p = flattened_path p"
proof (cases p)
  case None
  then show ?thesis by (simp add: normalizePath_def flattened_path_def)
next
  case (Some segs)
  have "(if typeof_segment seg = ''object'' \<and> key_in seg
         then get_prop (segment_val seg) ''key'' else segment_val seg) = flatten_segment seg" for seg
    by (cases seg) (simp_all add: flatten_segment_def)
  with Some show ?thesis by (simp add: normalizePath_def flattened_path_def)
qed

text \<open>
  Once a schema is resolved and its validation entry point has returned an outcome,
  \<open>transform\<close> depends on the \<^verbatim>\<open>issues\<close> property alone.
\<close>

lemma transform_resolved:
  assumes "getSchema this md = Some s"
    and "standard s = Some (DObject validate)"
    and "validate v = Returns r"
  shows "transform this v md =
           (case issues r of
              Issues iss \<Rightarrow> (case createException this iss of
                               Throws e \<Rightarrow> Throws e | Returns ex \<Rightarrow> Throws ex)
            | _ \<Rightarrow> Returns (result_value r))"
  using assms by (simp add: transform_def split: issues_field.splits)

lemma createException_default:
  assumes "exceptionFactory (options this) = None"
  shows "createException this iss =
           Returns (JHttpException
             (JObject
               [(''statusCode'', JNumber (int (case errorHttpStatusCode (options this) of
                                                 Some c \<Rightarrow> c | None \<Rightarrow> 400))),
                (''message'', JString ''Validation failed''),
                (''errors'', JArray (map (\<lambda>issue.
                     JObject [(''path'', JArray (flattened_path (path issue))),
                              (''message'', JString (message issue))]) iss))])
             (case errorHttpStatusCode (options this) of Some c \<Rightarrow> c | None \<Rightarrow> 400))"
  using assms
  by (simp add: createException_def BAD_REQUEST_def normalizePath_flattened Let_def split: option.splits)

text \<open>
  An object whose \<^verbatim>\<open>'~standard'\<close> property is \<^verbatim>\<open>null\<close> passes \<open>isSchema\<close>, since
  \<^verbatim>\<open>typeof null\<close> is \<^verbatim>\<open>'object'\<close>; \<open>transform\<close> then fails reading \<^verbatim>\<open>validate\<close>.
\<close>

lemma null_standard_accepted:
  "isSchema (DObject null_standard) \<and>
   transform (StandardValidationPipe (DObject null_standard) opts) v md = Throws JTypeError"
  by (simp add: isSchema_def null_standard_def StandardValidationPipe_def transform_def
      getSchema_def)

section \<open>Schema-bound pipes\<close>

text \<open>
  C1. A pipe constructed with an explicit schema, applied to an input for which the
  schema's validation entry point returns a success outcome (no \<^verbatim>\<open>issues\<close> property, or
  \<^verbatim>\<open>issues\<close> undefined), returns exactly the value that outcome carries, whatever the
  options and the argument descriptor are.
\<close>

theorem C1_transform_returns_success_value:
  assumes "standard s = Some (DObject validate)"
    and "validate v = Returns r"
    and "issues r = IssuesAbsent \<or> issues r = IssuesUndefined"
    and "val r = Some x"
  shows "transform (StandardValidationPipe (DObject s) opts) v metadata = Returns x"
proof -
  have "isSchema (DObject s)"
    using assms(1) by (simp add: isSchema_object)
  then have "getSchema (StandardValidationPipe (DObject s) opts) metadata = Some s"
    by (simp add: getSchema_bound StandardValidationPipe_def)
  then show ?thesis
    using assms by (auto simp: transform_def result_value_def)
qed

theorem C1_witness:
  "transform (StandardValidationPipe (DObject accepting_schema) None) (JString ''a'') body_metadata
     = Returns (JString ''a'')"
  using C1_transform_returns_success_value
    [of accepting_schema accept_all "JString ''a''"
        "\<lparr>issues = IssuesUndefined, val = Some (JString ''a'')\<rparr>"
        "JString ''a''" None body_metadata]
  by (simp add: accepting_schema_def accept_all_def)

text \<open>
  C2. A pipe constructed with an explicit schema and no custom exception factory, applied
  to an input for which the validation outcome carries issues, throws an HttpException
  whose response has an \<^verbatim>\<open>errors\<close> array with one entry per issue, in the order of the
  issues; the \<^verbatim>\<open>path\<close> of entry \<open>i\<close> is the flattened path of issue \<open>i\<close>.
\<close>

theorem C2_errors_follow_issues:
  assumes "standard s = Some (DObject validate)"
    and "validate v = Returns r"
    and "issues r = Issues iss"
    and "exceptionFactory (options (StandardValidationPipe (DObject s) opts)) = None"
  shows "\<exists>response status es.
           transform (StandardValidationPipe (DObject s) opts) v md
             = Throws (JHttpException response status) \<and>
           get_prop response ''errors'' = JArray es \<and>
           length es = length iss \<and>
           (\<forall>i<length iss. get_prop (es ! i) ''path'' = JArray (flattened_path (path (iss ! i))))"
proof -
  have "isSchema (DObject s)"
    using assms(1) by (simp add: isSchema_object)
  then have "getSchema (StandardValidationPipe (DObject s) opts) md = Some s"
    by (simp add: getSchema_bound StandardValidationPipe_def)
  then show ?thesis
    using assms by (simp add: transform_resolved createException_default)
qed

theorem C2_witness:
  "\<exists>response status es.
     transform (StandardValidationPipe (DObject rejecting_schema) None) JNull body_metadata
       = Throws (JHttpException response status) \<and>
     get_prop response ''errors'' = JArray es \<and>
     length es = 3 \<and>
     get_prop (es ! 0) ''path'' = JArray [JString ''email''] \<and>
     get_prop (es ! 1) ''path'' = JArray [JString ''items'', JNumber 0] \<and>
     get_prop (es ! 2) ''path'' = JArray []"
proof -
  have "issues \<lparr>issues = Issues example_issues, val = None\<rparr> = Issues example_issues"
    by simp
  moreover have "exceptionFactory (options (StandardValidationPipe (DObject rejecting_schema) None)) = None"
    by (simp add: StandardValidationPipe_def rejecting_schema_def isSchema_def empty_object_def)
  moreover have "standard rejecting_schema = Some (DObject reject_all)"
    by (simp add: rejecting_schema_def)
  moreover have "reject_all JNull = Returns \<lparr>issues = Issues example_issues, val = None\<rparr>"
    by (simp add: reject_all_def)
  ultimately obtain response status es where
    t: "transform (StandardValidationPipe (DObject rejecting_schema) None) JNull body_metadata
       = Throws (JHttpException response status)"
    and e: "get_prop response ''errors'' = JArray es"
    and l: "length es = length example_issues"
    and p: "\<forall>i<length example_issues. get_prop (es ! i) ''path'' = JArray (flattened_path (path (example_issues ! i)))"
    using C2_errors_follow_issues [of rejecting_schema reject_all JNull
        "\<lparr>issues = Issues example_issues, val = None\<rparr>" example_issues None body_metadata]
    by blast
  have len: "length example_issues = 3" by (simp add: example_issues_def)
  from p len have "get_prop (es ! 0) ''path'' = JArray (flattened_path (path (example_issues ! 0)))"
    and "get_prop (es ! 1) ''path'' = JArray (flattened_path (path (example_issues ! 1)))"
    and "get_prop (es ! 2) ''path'' = JArray (flattened_path (path (example_issues ! 2)))"
    by simp_all
  then have "get_prop (es ! 0) ''path'' = JArray [JString ''email'']"
    and "get_prop (es ! 1) ''path'' = JArray [JString ''items'', JNumber 0]"
    and "get_prop (es ! 2) ''path'' = JArray []"
    by (simp_all add: example_issues_def flattened_path_def flatten_segment_def)
  with t e l len show ?thesis by auto
qed

text \<open>
  C3. For a pipe constructed with an explicit schema, every call of \<open>transform\<close>
  validates with that schema: schema resolution yields it for every argument descriptor,
  and the result of \<open>transform\<close> is the dispatch on what the bound schema's validation
  entry point returns for the input (its throw is propagated, an issue array makes the
  pipe throw the exception built from it, anything else returns the outcome's value).
  Neither the descriptor (kind, metatype) nor \<^verbatim>\<open>expectedType\<close> and
  \<^verbatim>\<open>validateCustomDecorators\<close> are consulted: the result is the same for any two
  descriptors and any two option records that agree on the status code and the
  exception factory.
\<close>

theorem C3_explicit_schema_always_used:
  assumes "isSchema (DObject s)"
    and "p1 = StandardValidationPipe (DObject s) opts1"
    and "p2 = StandardValidationPipe (DObject s) opts2"
    and "errorHttpStatusCode (options p1) = errorHttpStatusCode (options p2)"
    and "exceptionFactory (options p1) = exceptionFactory (options p2)"
  shows "getSchema p1 md = Some s \<and>
         (\<forall>validate. standard s = Some (DObject validate) \<longrightarrow>
            transform p1 v md =
              (case validate v of
                 Throws e \<Rightarrow> Throws e
               | Returns r \<Rightarrow>
                   (case issues r of
                      Issues iss \<Rightarrow> (case createException p1 iss of
                                       Throws e \<Rightarrow> Throws e | Returns ex \<Rightarrow> Throws ex)
                    | _ \<Rightarrow> Returns (result_value r)))) \<and>
         (standard s = Some DNull \<longrightarrow> transform p1 v md = Throws JTypeError) \<and>
         transform p1 v md = transform p2 v md'"
proof -
  have g: "getSchema p1 m = Some s" "getSchema p2 m = Some s" for m
    using assms(1-3) by (simp_all add: getSchema_bound StandardValidationPipe_def)
  have c: "createException p1 iss = createException p2 iss" for iss
    using assms(4,5) by (simp add: createException_def split: option.splits)
  have d: "transform p1 v md =
              (case validate v of
                 Throws e \<Rightarrow> Throws e
               | Returns r \<Rightarrow>
                   (case issues r of
                      Issues iss \<Rightarrow> (case createException p1 iss of
                                       Throws e \<Rightarrow> Throws e | Returns ex \<Rightarrow> Throws ex)
                    | _ \<Rightarrow> Returns (result_value r)))"
    if "standard s = Some (DObject validate)" for validate
  proof (cases "validate v")
    case (Returns r)
    show ?thesis
      using transform_resolved [OF g(1) that Returns] Returns by simp
  next
    case (Throws e)
    then show ?thesis
      using that by (simp add: transform_def g)
  qed
  have n: "transform p1 v md = Throws JTypeError" if "standard s = Some DNull"
    using that by (simp add: transform_def g)
  have e: "transform p1 v md = transform p2 v md'"
    by (simp add: g c transform_def split: option.splits dynamic.splits completion.splits)
  show ?thesis
    using g(1) d n e by blast
qed

theorem C3_witness:
  "isSchema (DObject rejecting_schema) \<and>
   getSchema (StandardValidationPipe (DObject rejecting_schema) (Some flag_options)) decorated_metadata
     = Some rejecting_schema \<and>
   transform (StandardValidationPipe (DObject rejecting_schema) (Some flag_options)) JNull decorated_metadata
     = (case createException (StandardValidationPipe (DObject rejecting_schema) (Some flag_options))
               example_issues of
          Throws e \<Rightarrow> Throws e | Returns ex \<Rightarrow> Throws ex) \<and>
   (\<exists>e. transform (StandardValidationPipe (DObject rejecting_schema) (Some flag_options)) JNull
           decorated_metadata = Throws e) \<and>
   transform (StandardValidationPipe (DObject rejecting_schema) (Some flag_options)) JNull decorated_metadata
     = transform (StandardValidationPipe (DObject rejecting_schema) None) JNull custom_metadata"
proof -
  have s: "isSchema (DObject rejecting_schema)"
    by (simp add: isSchema_def rejecting_schema_def)
  have o: "errorHttpStatusCode (options (StandardValidationPipe (DObject rejecting_schema) (Some flag_options)))
          = errorHttpStatusCode (options (StandardValidationPipe (DObject rejecting_schema) None))"
    "exceptionFactory (options (StandardValidationPipe (DObject rejecting_schema) (Some flag_options)))
          = exceptionFactory (options (StandardValidationPipe (DObject rejecting_schema) None))"
    using s by (simp_all add: StandardValidationPipe_def empty_object_def flag_options_def)
  have st: "standard rejecting_schema = Some (DObject reject_all)"
    by (simp add: rejecting_schema_def)
  note t = C3_explicit_schema_always_used
      [OF s refl refl o, of decorated_metadata JNull custom_metadata]
  from t st have d: "transform (StandardValidationPipe (DObject rejecting_schema) (Some flag_options)) JNull
      decorated_metadata
     = (case createException (StandardValidationPipe (DObject rejecting_schema) (Some flag_options))
               example_issues of
          Throws e \<Rightarrow> Throws e | Returns ex \<Rightarrow> Throws ex)"
    by (simp add: reject_all_def)
  then have "\<exists>e. transform (StandardValidationPipe (DObject rejecting_schema) (Some flag_options)) JNull
           decorated_metadata = Throws e"
    by (cases "createException (StandardValidationPipe (DObject rejecting_schema) (Some flag_options))
               example_issues") simp_all
  with s t d show ?thesis by blast
qed

section \<open>Type-driven pipes\<close>

text \<open>
  C4. For a pipe constructed without a schema and a descriptor of kind \<^verbatim>\<open>custom\<close>: when
  \<^verbatim>\<open>validateCustomDecorators\<close> is unset or false, \<open>transform\<close> returns the input unchanged,
  whatever the metatype carries; when it is true, the schema is resolved through the
  metatype chain, and once a schema is resolved and its validation returns an outcome,
  \<open>transform\<close> throws when the outcome carries an issue array and returns the outcome's
  value otherwise.
\<close>

theorem C4_custom_kind_skipped_unless_enabled:
  assumes "\<not> isSchema a"
    and "this = StandardValidationPipe a opts"
    and "type md = custom"
  shows "((validateCustomDecorators (options this) = None \<or>
           validateCustomDecorators (options this) = Some False) \<longrightarrow>
            transform this v md = Returns v) \<and>
         (validateCustomDecorators (options this) = Some True \<longrightarrow>
            getSchema this md =
              (case (case expectedType (options this) of
                       Some t \<Rightarrow> Some t | None \<Rightarrow> metatype md) of
                 None \<Rightarrow> None
               | Some t \<Rightarrow> if t \<in> {String, Boolean, Number, Array, Object} then None
                           else getSchemaFromType t) \<and>
            (\<forall>s validate r.
               getSchema this md = Some s \<longrightarrow> standard s = Some (DObject validate) \<longrightarrow>
               validate v = Returns r \<longrightarrow>
                 ((\<exists>iss. issues r = Issues iss) \<longrightarrow> (\<exists>e. transform this v md = Throws e)) \<and>
                 ((\<nexists>iss. issues r = Issues iss) \<longrightarrow> transform this v md = Returns (result_value r))))"
proof -
  have u: "schema this = None"
    using assms(1,2) by (simp add: schema_unbound)
  have skip: "transform this v md = Returns v"
    if "validateCustomDecorators (options this) = None \<or>
        validateCustomDecorators (options this) = Some False"
    using that assms(3) by (auto simp: transform_def getSchema_unbound [OF u])
  have chain: "getSchema this md =
              (case (case expectedType (options this) of
                       Some t \<Rightarrow> Some t | None \<Rightarrow> metatype md) of
                 None \<Rightarrow> None
               | Some t \<Rightarrow> if t \<in> {String, Boolean, Number, Array, Object} then None
                           else getSchemaFromType t)"
    if "validateCustomDecorators (options this) = Some True"
    using that by (simp add: getSchema_unbound [OF u])
  have run1: "\<exists>e. transform this v md = Throws e"
    if "getSchema this md = Some s" "standard s = Some (DObject validate)"
       "validate v = Returns r" "\<exists>iss. issues r = Issues iss"
    for s validate r
    using transform_resolved [OF that(1-3)] that(4)
    by (cases "createException this (issues_of (issues r))") auto
  have run2: "transform this v md = Returns (result_value r)"
    if "getSchema this md = Some s" "standard s = Some (DObject validate)"
       "validate v = Returns r" "\<nexists>iss. issues r = Issues iss"
    for s validate r
    using transform_resolved [OF that(1-3)] that(4)
    by (cases "issues r") auto
  show ?thesis
  proof (intro conjI impI allI)
    assume "validateCustomDecorators (options this) = None \<or>
            validateCustomDecorators (options this) = Some False"
    then show "transform this v md = Returns v" by (rule skip)
  next
    assume "validateCustomDecorators (options this) = Some True"
    then show "getSchema this md =
              (case (case expectedType (options this) of
                       Some t \<Rightarrow> Some t | None \<Rightarrow> metatype md) of
                 None \<Rightarrow> None
               | Some t \<Rightarrow> if t \<in> {String, Boolean, Number, Array, Object} then None
                           else getSchemaFromType t)"
      by (rule chain)
  next
    fix s validate r
    assume "getSchema this md = Some s" "standard s = Some (DObject validate)"
      "validate v = Returns r" "\<exists>iss. issues r = Issues iss"
    then show "\<exists>e. transform this v md = Throws e" by (rule run1)
  next
    fix s validate r
    assume "getSchema this md = Some s" "standard s = Some (DObject validate)"
      "validate v = Returns r" "\<nexists>iss. issues r = Issues iss"
    then show "transform this v md = Returns (result_value r)" by (rule run2)
  qed
qed

theorem C4_witness:
  "\<not> isSchema DUndefined \<and> \<not> isSchema (DObject flag_options) \<and> type custom_metadata = custom \<and>
   transform (StandardValidationPipe DUndefined None) JNull custom_metadata = Returns JNull \<and>
   getSchema (StandardValidationPipe (DObject flag_options) None) custom_metadata = Some rejecting_schema \<and>
   (\<exists>e. transform (StandardValidationPipe (DObject flag_options) None) JNull custom_metadata = Throws e)"
proof -
  have n1: "\<not> isSchema DUndefined" and n2: "\<not> isSchema (DObject flag_options)"
    by (simp_all add: isSchema_def flag_options_def)
  have t: "type custom_metadata = custom"
    by (simp add: custom_metadata_def)
  have o1: "validateCustomDecorators (options (StandardValidationPipe DUndefined None)) = None"
    by (simp add: StandardValidationPipe_def n1 empty_object_def)
  have o2: "validateCustomDecorators (options (StandardValidationPipe (DObject flag_options) None)) = Some True"
    and e2: "expectedType (options (StandardValidationPipe (DObject flag_options) None)) = None"
    by (simp_all add: StandardValidationPipe_def n2) (simp_all add: flag_options_def)
  have a: "transform (StandardValidationPipe DUndefined None) JNull custom_metadata = Returns JNull"
    using C4_custom_kind_skipped_unless_enabled [OF n1 refl t, of None JNull] o1 by simp
  note b = C4_custom_kind_skipped_unless_enabled [OF n2 refl t, of None JNull]
  have g: "getSchema (StandardValidationPipe (DObject flag_options) None) custom_metadata = Some rejecting_schema"
    using b o2 e2 by (simp add: custom_metadata_def dto_class_def)
  have "\<exists>e. transform (StandardValidationPipe (DObject flag_options) None) JNull custom_metadata = Throws e"
  proof -
    have "standard rejecting_schema = Some (DObject reject_all)"
      by (simp add: rejecting_schema_def)
    moreover have "reject_all JNull = Returns \<lparr>issues = Issues example_issues, val = None\<rparr>"
      by (simp add: reject_all_def)
    ultimately show ?thesis
      using b o2 g by fastforce
  qed
  with n1 n2 t a g show ?thesis by simp
qed

text \<open>
  C5. For a pipe constructed without a schema, when the declared type (or the
  \<^verbatim>\<open>expectedType\<close> override) is absent, is one of String, Boolean, Number, Array and
  Object, or carries neither a static schema nor schema metadata, \<open>transform\<close> returns the
  input unchanged; it does not throw.
\<close>

theorem C5_unresolvable_schema_passes_through:
  assumes "\<not> isSchema a"
    and "this = StandardValidationPipe a opts"
    and "resolved = (case expectedType (options this) of
                       Some t \<Rightarrow> Some t | None \<Rightarrow> metatype md)"
    and "resolved = None \<or>
         (\<exists>t \<in> {String, Boolean, Number, Array, Object}. resolved = Some t) \<or>
         (\<exists>t. resolved = Some t \<and> static_schema t = None \<and> schema_metadata t = None)"
  shows "transform this v md = Returns v"
proof -
  have u: "schema this = None"
    using assms(1,2) by (simp add: schema_unbound)
  have "getSchemaFromType t = None" if "static_schema t = None" "schema_metadata t = None" for t
    using that by (cases t) simp_all
  then have "getSchema this md = None"
    using assms(3,4) by (auto simp: getSchema_unbound [OF u])
  then show ?thesis by (simp add: transform_def)
qed

theorem C5_witness:
  "\<not> isSchema DUndefined \<and>
   transform (StandardValidationPipe DUndefined None) (JString ''x'') plain_metadata
     = Returns (JString ''x'')"
proof -
  have n: "\<not> isSchema DUndefined"
    by (simp add: isSchema_def)
  have r: "Some plain_class =
     (case expectedType (options (StandardValidationPipe DUndefined None)) of
        Some t \<Rightarrow> Some t | None \<Rightarrow> metatype plain_metadata)"
    by (simp add: StandardValidationPipe_def n empty_object_def plain_metadata_def)
  have "\<exists>t. Some plain_class = Some t \<and> static_schema t = None \<and> schema_metadata t = None"
    by (simp add: plain_class_def)
  then show ?thesis
    using C5_unresolvable_schema_passes_through [OF n refl r, of "JString ''x''"] n by blast
qed

text \<open>
  C8. For a pipe without a bound schema whose resolved type is none of the five built-in
  constructors, schema resolution returns the static schema of the type when there is
  one, the schema metadata when there is no static schema, and when there is neither
  \<open>transform\<close> returns the input unchanged.
\<close>

theorem C8_static_schema_before_metadata:
  assumes "schema this = None"
    and "\<not> (type md = custom \<and> validateCustomDecorators (options this) \<noteq> Some True)"
    and "(case expectedType (options this) of Some t \<Rightarrow> Some t | None \<Rightarrow> metatype md) = Some t"
    and "t \<notin> {String, Boolean, Number, Array, Object}"
  shows "(\<forall>s. static_schema t = Some s \<longrightarrow> getSchema this md = Some s) \<and>
         (static_schema t = None \<longrightarrow> getSchema this md = schema_metadata t) \<and>
         (static_schema t = None \<and> schema_metadata t = None \<longrightarrow> transform this v md = Returns v)"
proof -
  obtain st m where t: "t = Class st m"
    using assms(4) by (cases t) auto
  have "getSchema this md = getSchemaFromType t"
    using assms(2-4) by (auto simp: getSchema_unbound [OF assms(1)])
  then show ?thesis
    by (auto simp: t transform_def)
qed

theorem C8_witness:
  "getSchema (StandardValidationPipe DUndefined None) both_metadata = Some rejecting_schema \<and>
   getSchema (StandardValidationPipe DUndefined None) decorated_metadata = Some accepting_schema \<and>
   transform (StandardValidationPipe DUndefined None) JNull plain_metadata = Returns JNull"
proof -
  have n: "\<not> isSchema DUndefined"
    by (simp add: isSchema_def)
  have u: "schema (StandardValidationPipe DUndefined None) = None"
    by (simp add: StandardValidationPipe_def n)
  have e: "(case expectedType (options (StandardValidationPipe DUndefined None)) of
              Some t \<Rightarrow> Some t | None \<Rightarrow> metatype m) = metatype m" for m
    by (simp add: StandardValidationPipe_def n empty_object_def)
  have "getSchema (StandardValidationPipe DUndefined None) both_metadata = Some rejecting_schema"
    using C8_static_schema_before_metadata
      [OF u, of both_metadata both_class JNull] e [of both_metadata]
    by (simp add: both_metadata_def both_class_def)
  moreover
  have "getSchema (StandardValidationPipe DUndefined None) decorated_metadata = Some accepting_schema"
    using C8_static_schema_before_metadata
      [OF u, of decorated_metadata decorated_class JNull] e [of decorated_metadata]
    by (simp add: decorated_metadata_def decorated_class_def)
  moreover
  have "transform (StandardValidationPipe DUndefined None) JNull plain_metadata = Returns JNull"
    using C8_static_schema_before_metadata
      [OF u, of plain_metadata plain_class JNull] e [of plain_metadata]
    by (simp add: plain_metadata_def plain_class_def)
  ultimately show ?thesis by simp
qed

section \<open>The thrown exception\<close>

text \<open>
  C6. For a pipe with a custom exception factory and a validation outcome carrying
  issues, the factory is applied to the issue list; when it returns an HttpException
  instance that value is thrown as it is, and any other returned value is thrown wrapped
  in a BadRequestException. What is thrown is an instance of HttpException in both cases.
\<close>

theorem C6_custom_exception_factory:
  assumes "exceptionFactory (options this) = Some factory"
    and "getSchema this md = Some s"
    and "standard s = Some (DObject validate)"
    and "validate v = Returns r"
    and "issues r = Issues iss"
    and "factory iss = Returns ex"
  shows "transform this v md
           = Throws (if instanceof_HttpException ex then ex else JBadRequestException ex) \<and>
         (\<exists>thrown. transform this v md = Throws thrown \<and> instanceof_HttpException thrown)"
  using assms by (simp add: transform_resolved createException_def)

theorem C6_witness:
  "transform (StandardValidationPipe (DObject rejecting_schema) (Some code_options)) JNull body_metadata
     = Throws (JBadRequestException (JObject [(''code'', JString ''X''), (''count'', JNumber 3)])) \<and>
   transform (StandardValidationPipe (DObject rejecting_schema) (Some teapot_options)) JNull body_metadata
     = Throws (JHttpException (JString ''teapot'') 418)"
proof -
  have s: "isSchema (DObject rejecting_schema)"
    by (simp add: isSchema_def rejecting_schema_def)
  have g: "getSchema (StandardValidationPipe (DObject rejecting_schema) (Some ob)) body_metadata
             = Some rejecting_schema" for ob
    using s by (simp add: getSchema_bound StandardValidationPipe_def)
  have st: "standard rejecting_schema = Some (DObject reject_all)"
    by (simp add: rejecting_schema_def)
  have v: "reject_all JNull = Returns \<lparr>issues = Issues example_issues, val = None\<rparr>"
    by (simp add: reject_all_def)
  have i: "issues \<lparr>issues = Issues example_issues, val = None\<rparr> = Issues example_issues"
    by simp
  have f1: "exceptionFactory (options (StandardValidationPipe (DObject rejecting_schema) (Some code_options)))
              = Some code_factory"
    using s by (simp add: StandardValidationPipe_def code_options_def)
  have f2: "exceptionFactory (options (StandardValidationPipe (DObject rejecting_schema) (Some teapot_options)))
              = Some teapot_factory"
    using s by (simp add: StandardValidationPipe_def teapot_options_def)
  have r1: "code_factory example_issues
              = Returns (JObject [(''code'', JString ''X''), (''count'', JNumber 3)])"
    by (simp add: code_factory_def example_issues_def)
  have r2: "teapot_factory example_issues = Returns (JHttpException (JString ''teapot'') 418)"
    by (simp add: teapot_factory_def)
  show ?thesis
    using C6_custom_exception_factory [OF f1 g st v i r1]
      C6_custom_exception_factory [OF f2 g st v i r2]
    by simp
qed

text \<open>
  C7. For a pipe without a custom exception factory and a validation outcome carrying
  issues, the thrown HttpException has the response
  \<^verbatim>\<open>{ statusCode, message: 'Validation failed', errors: [{ path, message }, ...] }\<close> and
  the status given by \<^verbatim>\<open>errorHttpStatusCode\<close>, or 400 when that option is unset; the
  \<^verbatim>\<open>statusCode\<close> of the response is that status.
\<close>

theorem C7_default_error_shape:
  assumes "exceptionFactory (options this) = None"
    and "getSchema this md = Some s"
    and "standard s = Some (DObject validate)"
    and "validate v = Returns r"
    and "issues r = Issues iss"
    and "status = (case errorHttpStatusCode (options this) of Some c \<Rightarrow> c | None \<Rightarrow> 400)"
  shows "\<exists>response.
           transform this v md = Throws (JHttpException response status) \<and>
           response = JObject
             [(''statusCode'', JNumber (int status)),
              (''message'', JString ''Validation failed''),
              (''errors'', JArray (map (\<lambda>issue.
                   JObject [(''path'', JArray (flattened_path (path issue))),
                            (''message'', JString (message issue))]) iss))] \<and>
           get_prop response ''statusCode'' = JNumber (int status)"
  using assms by (simp add: transform_resolved createException_default)

theorem C7_witness:
  "\<exists>response.
     transform (StandardValidationPipe (DObject rejecting_schema) (Some status_options)) JNull body_metadata
       = Throws (JHttpException response 422) \<and>
     get_prop response ''statusCode'' = JNumber 422 \<and>
     get_prop response ''message'' = JString ''Validation failed''"
proof -
  have s: "isSchema (DObject rejecting_schema)"
    by (simp add: isSchema_def rejecting_schema_def)
  have g: "getSchema (StandardValidationPipe (DObject rejecting_schema) (Some status_options)) body_metadata
             = Some rejecting_schema"
    using s by (simp add: getSchema_bound StandardValidationPipe_def)
  have st: "standard rejecting_schema = Some (DObject reject_all)"
    by (simp add: rejecting_schema_def)
  have v: "reject_all JNull = Returns \<lparr>issues = Issues example_issues, val = None\<rparr>"
    by (simp add: reject_all_def)
  have i: "issues \<lparr>issues = Issues example_issues, val = None\<rparr> = Issues example_issues"
    by simp
  have f: "exceptionFactory (options (StandardValidationPipe (DObject rejecting_schema) (Some status_options)))
             = None"
    using s by (simp add: StandardValidationPipe_def status_options_def)
  have c: "422 = (case errorHttpStatusCode
                      (options (StandardValidationPipe (DObject rejecting_schema) (Some status_options))) of
                    Some c \<Rightarrow> c | None \<Rightarrow> 400)"
    using s by (simp add: StandardValidationPipe_def status_options_def)
  show ?thesis
    using C7_default_error_shape [OF f g st v i c] by auto
qed

section \<open>Dispatch on the validation outcome\<close>

text \<open>
  C9, as stated, fails for a pipe with a custom exception factory: on an outcome with an
  empty issue array the factory decides what is thrown. Here the factory returns an
  HttpException whose response is a string, so the thrown error has no
  \<^verbatim>\<open>errors\<close> array.
\<close>

theorem C9_counterexample:
  "getSchema (StandardValidationPipe (DObject empty_failure_schema) (Some teapot_options)) body_metadata
     = Some empty_failure_schema \<and>
   standard empty_failure_schema = Some (DObject no_issues_failure) \<and>
   no_issues_failure JNull = Returns \<lparr>issues = Issues [], val = None\<rparr> \<and>
   transform (StandardValidationPipe (DObject empty_failure_schema) (Some teapot_options)) JNull body_metadata
     = Throws (JHttpException (JString ''teapot'') 418) \<and>
   get_prop (JString ''teapot'') ''errors'' \<noteq> JArray []"
  by (simp add: StandardValidationPipe_def isSchema_def empty_failure_schema_def getSchema_def
      transform_def no_issues_failure_def createException_def teapot_options_def teapot_factory_def)

text \<open>
  C9, amended. Once a schema is resolved and its validation returns an outcome,
  \<open>transform\<close> throws if and only if the outcome has an \<^verbatim>\<open>issues\<close> property that is
  neither undefined nor null. An outcome whose \<^verbatim>\<open>issues\<close> property is present and
  undefined is a success and its \<^verbatim>\<open>value\<close> is returned. An outcome with an empty issue
  array is a failure; on a pipe without a custom exception factory the thrown error has
  an empty \<^verbatim>\<open>errors\<close> array.
\<close>

theorem C9_throws_iff_issues_array:
  assumes "getSchema this md = Some s"
    and "standard s = Some (DObject validate)"
    and "validate v = Returns r"
  shows "((\<exists>e. transform this v md = Throws e) \<longleftrightarrow>
            issues r \<noteq> IssuesAbsent \<and> issues r \<noteq> IssuesUndefined \<and> issues r \<noteq> IssuesNull) \<and>
         (issues r = IssuesUndefined \<longrightarrow> transform this v md = Returns (result_value r)) \<and>
         (issues r = Issues [] \<and> exceptionFactory (options this) = None \<longrightarrow>
            (\<exists>response status.
               transform this v md = Throws (JHttpException response status) \<and>
               get_prop response ''errors'' = JArray []))"
proof -
  note t = transform_resolved [OF assms]
  have "(\<exists>e. transform this v md = Throws e) \<longleftrightarrow>
            issues r \<noteq> IssuesAbsent \<and> issues r \<noteq> IssuesUndefined \<and> issues r \<noteq> IssuesNull"
    by (cases "issues r"; cases "createException this (issues_of (issues r))") (auto simp: t)
  moreover have "issues r = IssuesUndefined \<longrightarrow> transform this v md = Returns (result_value r)"
    by (simp add: t)
  moreover have "issues r = Issues [] \<and> exceptionFactory (options this) = None \<longrightarrow>
            (\<exists>response status.
               transform this v md = Throws (JHttpException response status) \<and>
               get_prop response ''errors'' = JArray [])"
    by (simp add: t createException_default)
  ultimately show ?thesis by blast
qed

theorem C9_witness:
  "(\<exists>e. transform (StandardValidationPipe (DObject empty_failure_schema) None) JNull body_metadata
          = Throws e) \<and>
   (\<exists>response status.
      transform (StandardValidationPipe (DObject empty_failure_schema) None) JNull body_metadata
        = Throws (JHttpException response status) \<and>
      get_prop response ''errors'' = JArray [])"
proof -
  have s: "isSchema (DObject empty_failure_schema)"
    by (simp add: isSchema_def empty_failure_schema_def)
  have g: "getSchema (StandardValidationPipe (DObject empty_failure_schema) None) body_metadata
             = Some empty_failure_schema"
    using s by (simp add: getSchema_bound StandardValidationPipe_def)
  have st: "standard empty_failure_schema = Some (DObject no_issues_failure)"
    by (simp add: empty_failure_schema_def)
  have v: "no_issues_failure JNull = Returns \<lparr>issues = Issues [], val = None\<rparr>"
    by (simp add: no_issues_failure_def)
  have f: "exceptionFactory (options (StandardValidationPipe (DObject empty_failure_schema) None)) = None"
    using s by (simp add: StandardValidationPipe_def empty_object_def)
  show ?thesis
    using C9_throws_iff_issues_array [OF g st v] f by simp
qed

section \<open>The constructor\<close>

text \<open>
  C10. The first constructor argument becomes the bound schema if and only if it is a
  non-null object that has a \<^verbatim>\<open>'~standard'\<close> property whose \<^verbatim>\<open>typeof\<close> is
  \<^verbatim>\<open>'object'\<close>; the options are then the second argument, or the empty object when
  there is none. Otherwise the pipe has no bound schema, the second argument is ignored,
  an object given as first argument is the options, and with no first argument the
  options are the empty object.
\<close>

theorem C10_constructor_dispatch:
  "(schema (StandardValidationPipe a opts) \<noteq> None \<longleftrightarrow>
      (\<exists>ob d. a = DObject ob \<and> standard ob = Some d \<and> typeof d = ''object'')) \<and>
   (\<forall>ob d. a = DObject ob \<and> standard ob = Some d \<and> typeof d = ''object'' \<longrightarrow>
      StandardValidationPipe a opts =
        \<lparr>schema = Some ob,
         options = (case opts of Some given \<Rightarrow> given | None \<Rightarrow> empty_object)\<rparr>) \<and>
   (schema (StandardValidationPipe a opts) = None \<longrightarrow>
      StandardValidationPipe a opts = StandardValidationPipe a None \<and>
      (\<forall>ob. a = DObject ob \<longrightarrow> options (StandardValidationPipe a opts) = ob) \<and>
      (a = DUndefined \<or> a = DNull \<longrightarrow> options (StandardValidationPipe a opts) = empty_object))"
proof -
  have i: "isSchema a \<longleftrightarrow> (\<exists>ob d. a = DObject ob \<and> standard ob = Some d \<and> typeof d = ''object'')"
    by (cases a) (simp_all add: isSchema_def split: option.splits)
  show ?thesis
    unfolding i [symmetric]
    by (cases a) (auto simp: StandardValidationPipe_def isSchema_object)
qed

theorem C10_witness:
  "StandardValidationPipe (DObject rejecting_schema) (Some status_options)
     = \<lparr>schema = Some rejecting_schema, options = status_options\<rparr> \<and>
   StandardValidationPipe (DObject flag_options) (Some status_options)
     = \<lparr>schema = None, options = flag_options\<rparr> \<and>
   StandardValidationPipe DUndefined (Some status_options)
     = \<lparr>schema = None, options = empty_object\<rparr>"
proof -
  have a: "standard rejecting_schema = Some (DObject reject_all) \<and>
           typeof (DObject reject_all) = ''object''"
    by (simp add: rejecting_schema_def)
  have b: "\<not> (\<exists>ob d. DObject flag_options = DObject ob \<and> standard ob = Some d \<and>
                        typeof d = ''object'')"
    by (simp add: flag_options_def)
  have c: "\<not> (\<exists>ob d. (DUndefined :: jsobject dynamic) = DObject ob \<and> standard ob = Some d \<and>
                        typeof d = ''object'')"
    by simp
  have "StandardValidationPipe (DObject rejecting_schema) (Some status_options)
     = \<lparr>schema = Some rejecting_schema, options = status_options\<rparr>"
    using C10_constructor_dispatch [of "DObject rejecting_schema" "Some status_options"] a
    by simp
  moreover
  have "schema (StandardValidationPipe (DObject flag_options) (Some status_options)) = None \<and>
        options (StandardValidationPipe (DObject flag_options) (Some status_options)) = flag_options"
    using C10_constructor_dispatch [of "DObject flag_options" "Some status_options"] b
    by blast
  moreover
  have "schema (StandardValidationPipe DUndefined (Some status_options)) = None \<and>
        options (StandardValidationPipe DUndefined (Some status_options)) = empty_object"
    using C10_constructor_dispatch [of DUndefined "Some status_options"] c
    by blast
  ultimately show ?thesis
    by (metis (full_types) pipe.surjective old.unit.exhaust)
qed

end
